theory Spec2Isabelle
  imports Complex_Main
begin

section \<open>Python dictionaries\<close>

text \<open>
  A Python \<open>dict\<close> keeps its keys in insertion order and holds each key once. It is
  modelled as an association list: \<open>map_of d k\<close> is the lookup, \<open>dict_set k v d\<close> is
  \<open>d[k] = v\<close> (an existing key keeps its place, a new key goes to the end), and
  \<open>map snd d\<close> is \<open>d.values()\<close>.
\<close>

type_synonym ('k, 'v) dict = "('k \<times> 'v) list"

fun dict_set :: "'k \<Rightarrow> 'v \<Rightarrow> ('k, 'v) dict \<Rightarrow> ('k, 'v) dict" where
  "dict_set k v [] = [(k, v)]"
| "dict_set k v ((k', v') # d) =
     (if k = k' then (k, v) # d else (k', v') # dict_set k v d)"

text \<open>
  The idiom \<open>if k not in d: d[k] = 0\<close> followed by \<open>d[k] += x\<close>, used by every
  per-symbol tracker of the repository.
\<close>

definition dict_add :: "'k \<Rightarrow> int \<Rightarrow> ('k, int) dict \<Rightarrow> ('k, int) dict" where
  "dict_add k x d =
     (case map_of d k of
        None \<Rightarrow> dict_set k (0 + x) (dict_set k 0 d)
      | Some v \<Rightarrow> dict_set k (v + x) d)"

text \<open>\<open>d.get(k, 0)\<close>.\<close>

definition dict_get0 :: "('k, int) dict \<Rightarrow> 'k \<Rightarrow> int" where
  "dict_get0 d k = (case map_of d k of None \<Rightarrow> 0 | Some v \<Rightarrow> v)"


section \<open>risk\_management/limits.py: class RiskLimits\<close>

text \<open>
  Quantities (position sizes, losses, limits) are Python integers, as in the module's own
  usage block. A \<open>datetime\<close> is the number of microseconds since a fixed origin, the
  resolution of \<open>datetime.now()\<close>; every method that reads the clock takes the reading
  as its first argument. \<open>log_event\<close> only writes a line to the log file and is left out
  of the state.
\<close>

record RiskLimits =
  max_position_size :: int
  max_loss_per_day :: int
  max_trade_loss :: int
  stop_loss_threshold :: int
  max_orders_per_minute :: int
  current_position_size :: int
  current_loss_per_day :: int
  current_trade_loss :: int
  orders_this_minute :: int
  last_order_time :: "int option"
  daily_limit_breached :: bool
  trades :: "(int \<times> int) list"
  closed_positions :: "(int \<times> int) list"

text \<open>\<open>__init__\<close>: the five limits, then the tracking variables at their start values.\<close>

definition RiskLimits_init :: "int \<Rightarrow> int \<Rightarrow> int \<Rightarrow> int \<Rightarrow> int \<Rightarrow> RiskLimits" where
  "RiskLimits_init mps mlpd mtl slt mopm =
     \<lparr> max_position_size = mps, max_loss_per_day = mlpd, max_trade_loss = mtl,
       stop_loss_threshold = slt, max_orders_per_minute = mopm,
       current_position_size = 0, current_loss_per_day = 0, current_trade_loss = 0,
       orders_this_minute = 0, last_order_time = None, daily_limit_breached = False,
       trades = [], closed_positions = [] \<rparr>"

definition can_take_position :: "int \<Rightarrow> RiskLimits \<Rightarrow> bool" where
  "can_take_position position_size s =
     (if \<bar>current_position_size s + position_size\<bar> > max_position_size s
      then False else True)"

definition update_position_size :: "int \<Rightarrow> int \<Rightarrow> RiskLimits \<Rightarrow> RiskLimits" where
  "update_position_size now position_size s =
     s\<lparr> current_position_size := current_position_size s + position_size,
        trades := trades s @ [(now, position_size)] \<rparr>"

definition can_take_loss :: "int \<Rightarrow> RiskLimits \<Rightarrow> bool" where
  "can_take_loss trade_loss s =
     (if \<bar>trade_loss\<bar> > max_trade_loss s then False else True)"

definition update_trade_loss :: "int \<Rightarrow> RiskLimits \<Rightarrow> RiskLimits" where
  "update_trade_loss trade_loss s =
     s\<lparr> current_trade_loss := current_trade_loss s + trade_loss,
        current_loss_per_day := current_loss_per_day s + trade_loss \<rparr>"

definition check_daily_loss_limit :: "RiskLimits \<Rightarrow> bool \<times> RiskLimits" where
  "check_daily_loss_limit s =
     (if \<bar>current_loss_per_day s\<bar> > max_loss_per_day s
      then (False, s\<lparr> daily_limit_breached := True \<rparr>)
      else (True, s))"

definition should_trigger_stop_loss :: "int \<Rightarrow> RiskLimits \<Rightarrow> bool" where
  "should_trigger_stop_loss current_position_value s =
     (if \<bar>current_position_value\<bar> \<le> stop_loss_threshold s then True else False)"

definition reset_daily_limits :: "RiskLimits \<Rightarrow> RiskLimits" where
  "reset_daily_limits s =
     s\<lparr> current_loss_per_day := 0, current_trade_loss := 0,
        daily_limit_breached := False \<rparr>"

text \<open>
  \<open>(current_time - self.last_order_time).seconds\<close>: a \<open>timedelta\<close> is normalised to
  days, seconds in \<open>[0, 86400)\<close> and microseconds in \<open>[0, 10^6)\<close>, with floor
  division; \<open>.seconds\<close> is the middle component alone.
\<close>

definition timedelta_seconds :: "int \<Rightarrow> int \<Rightarrow> int" where
  "timedelta_seconds current_time last_time =
     ((current_time - last_time) mod (86400 * 1000000)) div 1000000"

definition check_order_rate :: "int \<Rightarrow> RiskLimits \<Rightarrow> bool \<times> RiskLimits" where
  "check_order_rate current_time s =
     (let s1 =
        (case last_order_time s of
           Some last_time \<Rightarrow>
             (let time_diff = real_of_int (timedelta_seconds current_time last_time) / 60;
                  s' = (if time_diff < 1
                        then s\<lparr> orders_this_minute := orders_this_minute s + 1 \<rparr>
                        else s\<lparr> orders_this_minute := 1 \<rparr>)
              in s'\<lparr> last_order_time := Some current_time \<rparr>)
         | None \<Rightarrow> s\<lparr> last_order_time := Some current_time, orders_this_minute := 1 \<rparr>)
      in if orders_this_minute s1 > max_orders_per_minute s1
         then (False, s1) else (True, s1))"

definition close_position :: "int \<Rightarrow> int \<Rightarrow> RiskLimits \<Rightarrow> RiskLimits" where
  "close_position now position_value s =
     s\<lparr> closed_positions := closed_positions s @ [(now, position_value)],
        current_position_size := 0 \<rparr>"

text \<open>The summary dictionary, as the tuple of its five values in the order written.\<close>

definition get_risk_summary :: "RiskLimits \<Rightarrow> int \<times> int \<times> int \<times> int \<times> bool" where
  "get_risk_summary s =
     (current_position_size s, current_loss_per_day s, current_trade_loss s,
      orders_this_minute s, daily_limit_breached s)"

definition evaluate_risk :: "int \<Rightarrow> RiskLimits \<Rightarrow> bool \<times> RiskLimits" where
  "evaluate_risk now s =
     (let risk_summary = get_risk_summary s;
          (ok1, s1) = check_daily_loss_limit s
      in if \<not> ok1 then (False, s1)
         else (let (ok2, s2) = check_order_rate now s1
               in if \<not> ok2 then (False, s2) else (True, s2)))"

text \<open>
  A caller's sequence of method calls on one \<open>RiskLimits\<close> object; \<open>rl_step\<close> performs
  one call and keeps the object, \<open>rl_run\<close> performs them in order.
\<close>

datatype rl_call =
    CanTakePosition int
  | UpdatePositionSize int int
  | CanTakeLoss int
  | UpdateTradeLoss int
  | CheckDailyLossLimit
  | ShouldTriggerStopLoss int
  | ResetDailyLimits
  | CheckOrderRate int
  | ClosePosition int int
  | GetRiskSummary
  | EvaluateRisk int

fun rl_step :: "rl_call \<Rightarrow> RiskLimits \<Rightarrow> RiskLimits" where
  "rl_step (CanTakePosition p) s = s"
| "rl_step (UpdatePositionSize now p) s = update_position_size now p s"
| "rl_step (CanTakeLoss l) s = s"
| "rl_step (UpdateTradeLoss l) s = update_trade_loss l s"
| "rl_step CheckDailyLossLimit s = snd (check_daily_loss_limit s)"
| "rl_step (ShouldTriggerStopLoss v) s = s"
| "rl_step ResetDailyLimits s = reset_daily_limits s"
| "rl_step (CheckOrderRate now) s = snd (check_order_rate now s)"
| "rl_step (ClosePosition now v) s = close_position now v s"
| "rl_step GetRiskSummary s = s"
| "rl_step (EvaluateRisk now) s = snd (evaluate_risk now s)"

definition rl_run :: "rl_call list \<Rightarrow> RiskLimits \<Rightarrow> RiskLimits" where
  "rl_run calls s = fold rl_step calls s"





section \<open>execution/risk\_manager.py: class RiskManager\<close>

text \<open>
  A trade is the dictionary \<open>{'symbol', 'profit', 'loss'}\<close> of the module's usage block,
  with integer amounts; a custom limit is \<open>{'name', 'metric', 'value'}\<close>, whose value
  may be fractional (\<open>0.05\<close>, \<open>1.5\<close>). The metrics that divide or take a root are
  computed over the reals. A date is its day number; \<open>record_trade\<close> takes the reading
  of \<open>datetime.datetime.now().date()\<close> as its first argument.
\<close>

record trade =
  trade_symbol :: string
  trade_profit :: int
  trade_loss :: int

record custom_limit =
  limit_name :: string
  limit_metric :: string
  limit_value :: real

record symbol_metrics =
  total_trades :: int
  total_profit :: int
  total_loss :: int

record RiskManager =
  rm_max_position_size :: int
  max_daily_loss :: int
  risk_limits :: "custom_limit list"
  rm_current_position_size :: int
  current_loss :: int
  trade_history :: "trade list"
  daily_loss_tracker :: "(string, int) dict"
  position_tracker :: "(string, int) dict"
  trade_metrics :: "(string, symbol_metrics) dict"
  start_of_day :: int

definition RiskManager_init :: "int \<Rightarrow> int \<Rightarrow> int \<Rightarrow> custom_limit list \<Rightarrow> RiskManager" where
  "RiskManager_init today mps mdl limits =
     \<lparr> rm_max_position_size = mps, max_daily_loss = mdl, risk_limits = limits,
       rm_current_position_size = 0, current_loss = 0, trade_history = [],
       daily_loss_tracker = [], position_tracker = [], trade_metrics = [],
       start_of_day = today \<rparr>"

definition update_position :: "int \<Rightarrow> string \<Rightarrow> RiskManager \<Rightarrow> RiskManager" where
  "update_position position_change symbol rm =
     rm\<lparr> position_tracker := dict_add symbol position_change (position_tracker rm),
         rm_current_position_size := rm_current_position_size rm + position_change \<rparr>"

definition update_daily_loss :: "int \<Rightarrow> string \<Rightarrow> int \<Rightarrow> RiskManager \<Rightarrow> RiskManager" where
  "update_daily_loss today symbol l rm =
     (let rm1 = (if today \<noteq> start_of_day rm
                 then rm\<lparr> daily_loss_tracker := [], start_of_day := today \<rparr>
                 else rm)
      in rm1\<lparr> daily_loss_tracker := dict_add symbol l (daily_loss_tracker rm1) \<rparr>)"

definition track_trade_metrics :: "trade \<Rightarrow> RiskManager \<Rightarrow> RiskManager" where
  "track_trade_metrics t rm =
     (let symbol = trade_symbol t;
          old = (case map_of (trade_metrics rm) symbol of
                   None \<Rightarrow> \<lparr> total_trades = 0, total_profit = 0, total_loss = 0 \<rparr>
                 | Some m \<Rightarrow> m);
          new = \<lparr> total_trades = total_trades old + 1,
                  total_profit = total_profit old + trade_profit t,
                  total_loss = total_loss old + trade_loss t \<rparr>
      in rm\<lparr> trade_metrics := dict_set symbol new (trade_metrics rm) \<rparr>)"

definition record_trade :: "int \<Rightarrow> trade \<Rightarrow> RiskManager \<Rightarrow> RiskManager" where
  "record_trade today t rm =
     (let rm1 = rm\<lparr> trade_history := trade_history rm @ [t] \<rparr>;
          rm2 = rm1\<lparr> current_loss := current_loss rm1 + trade_loss t \<rparr>;
          rm3 = update_daily_loss today (trade_symbol t) (trade_loss t) rm2
      in track_trade_metrics t rm3)"

text \<open>
  The loop of \<open>_calculate_max_drawdown\<close>: \<open>peak\<close> starts at \<open>float('-inf')\<close>, here
  \<open>None\<close>, below every profit; \<open>max_drawdown\<close> starts at 0.
\<close>

fun max_drawdown_loop :: "int option \<Rightarrow> int \<Rightarrow> trade list \<Rightarrow> int" where
  "max_drawdown_loop peak max_drawdown [] = max_drawdown"
| "max_drawdown_loop peak max_drawdown (t # ts) =
     (let peak' = (case peak of None \<Rightarrow> trade_profit t | Some p \<Rightarrow> max p (trade_profit t));
          drawdown = peak' - trade_profit t
      in max_drawdown_loop (Some peak') (max max_drawdown drawdown) ts)"

definition calculate_max_drawdown :: "RiskManager \<Rightarrow> int" where
  "calculate_max_drawdown rm = max_drawdown_loop None 0 (trade_history rm)"

definition calculate_volatility :: "RiskManager \<Rightarrow> real" where
  "calculate_volatility rm =
     (let returns = map (\<lambda>t. real_of_int (trade_profit t)) (trade_history rm)
      in if length returns < 2 then 0
         else (let avg_return = sum_list returns / real (length returns);
                   variance = sum_list (map (\<lambda>x. (x - avg_return) ^ 2) returns)
                                / real (length returns - 1)
               in sqrt variance))"

definition calculate_sharpe_ratio :: "real \<Rightarrow> RiskManager \<Rightarrow> real" where
  "calculate_sharpe_ratio risk_free_rate rm =
     (let returns = map (\<lambda>t. real_of_int (trade_profit t)) (trade_history rm);
          avg_return = (if returns \<noteq> [] then sum_list returns / real (length returns) else 0);
          volatility = calculate_volatility rm
      in if volatility = 0 then 0 else (avg_return - risk_free_rate) / volatility)"

definition calculate_metric :: "string \<Rightarrow> RiskManager \<Rightarrow> real" where
  "calculate_metric metric_name rm =
     (if metric_name = ''max_drawdown'' then real_of_int (calculate_max_drawdown rm)
      else if metric_name = ''volatility'' then calculate_volatility rm
      else if metric_name = ''sharpe_ratio'' then calculate_sharpe_ratio (2 / 100) rm
      else 0)"

definition check_custom_limit :: "custom_limit \<Rightarrow> RiskManager \<Rightarrow> bool" where
  "check_custom_limit limit rm =
     (calculate_metric (limit_metric limit) rm \<le> limit_value limit)"

text \<open>
  \<open>check_risk_limits\<close> reports a violation through \<open>logging.error\<close> and returns
  \<open>False\<close>. The model returns the boolean together with the violations so reported, one
  constructor for each of the three \<open>logging.error\<close> calls.
\<close>

datatype risk_violation =
    PositionSizeExceeded
  | DailyLossExceeded
  | CustomLimitExceeded string

fun check_custom_limits :: "custom_limit list \<Rightarrow> RiskManager \<Rightarrow> bool \<times> risk_violation list" where
  "check_custom_limits [] rm = (True, [])"
| "check_custom_limits (limit # limits) rm =
     (if \<not> check_custom_limit limit rm
      then (False, [CustomLimitExceeded (limit_name limit)])
      else check_custom_limits limits rm)"

definition check_risk_limits :: "RiskManager \<Rightarrow> bool \<times> risk_violation list" where
  "check_risk_limits rm =
     (if \<bar>rm_current_position_size rm\<bar> > rm_max_position_size rm
      then (False, [PositionSizeExceeded])
      else if current_loss rm > max_daily_loss rm
      then (False, [DailyLossExceeded])
      else check_custom_limits (risk_limits rm) rm)"

definition reset_risk :: "RiskManager \<Rightarrow> RiskManager" where
  "reset_risk rm =
     rm\<lparr> rm_current_position_size := 0, current_loss := 0, trade_history := [],
         daily_loss_tracker := [], trade_metrics := [] \<rparr>"

definition enforce_stop_loss :: "RiskManager \<Rightarrow> bool \<times> RiskManager" where
  "enforce_stop_loss rm =
     (if current_loss rm \<ge> max_daily_loss rm then (True, reset_risk rm) else (False, rm))"

fun enforce_position_limits_loop :: "(string \<times> int) list \<Rightarrow> int \<Rightarrow> bool" where
  "enforce_position_limits_loop [] limit = True"
| "enforce_position_limits_loop ((symbol, pos_size) # items) limit =
     (if \<bar>pos_size\<bar> > limit then False else enforce_position_limits_loop items limit)"

definition enforce_position_limits :: "RiskManager \<Rightarrow> bool" where
  "enforce_position_limits rm =
     enforce_position_limits_loop (position_tracker rm) (rm_max_position_size rm)"

definition real_time_risk_monitoring :: "RiskManager \<Rightarrow> bool \<times> RiskManager" where
  "real_time_risk_monitoring rm =
     (if \<not> enforce_position_limits rm then (False, rm)
      else (let (stopped, rm1) = enforce_stop_loss rm
            in if stopped then (False, rm1)
               else (fst (check_risk_limits rm1), rm1)))"

definition symbol_exposure :: "string \<Rightarrow> RiskManager \<Rightarrow> int" where
  "symbol_exposure symbol rm = dict_get0 (position_tracker rm) symbol"

definition daily_loss_for_symbol :: "string \<Rightarrow> RiskManager \<Rightarrow> int" where
  "daily_loss_for_symbol symbol rm = dict_get0 (daily_loss_tracker rm) symbol"

text \<open>A caller's sequence of method calls on one \<open>RiskManager\<close> object.\<close>

datatype rm_call =
    UpdatePosition int string
  | RecordTrade int trade
  | CheckRiskLimits
  | ResetRisk
  | RealTimeRiskMonitoring

fun rm_step :: "rm_call \<Rightarrow> RiskManager \<Rightarrow> RiskManager" where
  "rm_step (UpdatePosition c symbol) rm = update_position c symbol rm"
| "rm_step (RecordTrade today t) rm = record_trade today t rm"
| "rm_step CheckRiskLimits rm = rm"
| "rm_step ResetRisk rm = reset_risk rm"
| "rm_step RealTimeRiskMonitoring rm = snd (real_time_risk_monitoring rm)"

definition rm_run :: "rm_call list \<Rightarrow> RiskManager \<Rightarrow> RiskManager" where
  "rm_run calls rm = fold rm_step calls rm"

text \<open>
  The bookkeeping invariant of the two position fields: the aggregate
  \<open>current_position_size\<close> is the sum of the per-symbol entries of
  \<open>position_tracker\<close>.
\<close>

definition position_invariant :: "RiskManager \<Rightarrow> bool" where
  "position_invariant rm =
     (rm_current_position_size rm = sum_list (map snd (position_tracker rm)))"

text \<open>
  The violated rules of \<open>check_risk_limits\<close>, all of them, in the order the method
  examines them: what an evaluation that does not stop at the first violation reports.
\<close>

definition all_violations :: "RiskManager \<Rightarrow> risk_violation list" where
  "all_violations rm =
     (if \<bar>rm_current_position_size rm\<bar> > rm_max_position_size rm
      then [PositionSizeExceeded] else [])
     @ (if current_loss rm > max_daily_loss rm then [DailyLossExceeded] else [])
     @ map (\<lambda>l. CustomLimitExceeded (limit_name l))
         (filter (\<lambda>l. \<not> check_custom_limit l rm) (risk_limits rm))"

text \<open>
  The spec's reading of the drawdown metric, for comparison with
  \<open>calculate_max_drawdown\<close>: the cumulative profit after each trade, and the largest
  decline of that series from its running peak to its current value.
\<close>

fun cumulative_profits :: "int \<Rightarrow> int list \<Rightarrow> int list" where
  "cumulative_profits acc [] = []"
| "cumulative_profits acc (p # ps) = (acc + p) # cumulative_profits (acc + p) ps"

fun largest_decline :: "int option \<Rightarrow> int \<Rightarrow> int list \<Rightarrow> int" where
  "largest_decline peak best [] = best"
| "largest_decline peak best (c # cs) =
     (let peak' = (case peak of None \<Rightarrow> c | Some p \<Rightarrow> max p c)
      in largest_decline (Some peak') (max best (peak' - c)) cs)"

definition cumulative_max_drawdown :: "trade list \<Rightarrow> int" where
  "cumulative_max_drawdown ts =
     largest_decline None 0 (cumulative_profits 0 (map trade_profit ts))"


section \<open>risk\_management/real\_time\_monitoring.py: class RealTimeRiskMonitor\<close>

text \<open>
  Quantities and prices are Python numbers, taken as reals. The module imports
  \<open>get_positions\<close> and \<open>get_latest_data\<close> from modules that are not among the
  repository's sources, and \<open>get_risk_limits\<close> from \<open>risk_management.limits\<close>,
  which does not define it: the results of the three are inputs of the model. The
  risk limits are the dictionary with the keys \<open>'max_position_size'\<close>, \<open>'max_loss'\<close>
  and \<open>'max_exposure_by_asset_class'\<close> that \<open>check_risk_limits\<close> reads.

  \<open>halt_trading\<close> and \<open>liquidate_positions\<close> only write a log line, and
  \<open>send_alert\<close> posts the message: the field \<open>actions\<close> records each call of the
  three, in order. \<open>requests.post\<close> is the function \<open>post\<close>: the status code of the
  response, or \<open>None\<close> when the call raises.
\<close>

record position =
  quantity :: real
  entry_price :: real

record monitor_limits =
  lim_max_position_size :: real
  lim_max_loss :: real
  lim_max_exposure_by_asset_class :: "(string, real) dict"

datatype enforcement_action = HaltTrading | LiquidatePositions | SendAlert string

datatype monitor_error = KeyError string | RequestException

record RealTimeRiskMonitor =
  positions :: "(string, position) dict"
  pnls :: "(string, real) dict"
  exposure_by_asset_class :: "(string, real) dict"
  total_exposure :: real
  total_pnl :: real
  mon_risk_limits :: monitor_limits
  actions :: "enforcement_action list"

definition RealTimeRiskMonitor_init :: "monitor_limits \<Rightarrow> RealTimeRiskMonitor" where
  "RealTimeRiskMonitor_init limits =
     \<lparr> positions = [], pnls = [], exposure_by_asset_class = [], total_exposure = 0,
       total_pnl = 0, mon_risk_limits = limits, actions = [] \<rparr>"

definition get_asset_class :: "string \<Rightarrow> string" where
  "get_asset_class symbol =
     (if take 2 symbol = ''FX'' then ''Forex''
      else if take 2 symbol = ''EQ'' then ''Equities''
      else if take 3 symbol = ''COM'' then ''Commodities''
      else ''Other'')"

fun exposure_loop :: "(string \<times> position) list \<Rightarrow> (string, real) dict \<Rightarrow> (string, real) dict" where
  "exposure_loop [] d = d"
| "exposure_loop ((symbol, pos) # items) d =
     (let asset_class = get_asset_class symbol;
          exposure = quantity pos * entry_price pos
      in exposure_loop items
           (case map_of d asset_class of
              Some e \<Rightarrow> dict_set asset_class (e + exposure) d
            | None \<Rightarrow> dict_set asset_class exposure d))"

definition update_exposure_by_asset_class :: "RealTimeRiskMonitor \<Rightarrow> RealTimeRiskMonitor" where
  "update_exposure_by_asset_class m =
     m\<lparr> exposure_by_asset_class := exposure_loop (positions m) [] \<rparr>"

definition calculate_fees :: "position \<Rightarrow> real" where
  "calculate_fees pos = \<bar>quantity pos * entry_price pos * (1 / 10000)\<bar>"

definition calculate_position_pnl :: "position \<Rightarrow> real \<Rightarrow> real" where
  "calculate_position_pnl pos market_price =
     (market_price - entry_price pos) * quantity pos - calculate_fees pos"

fun calculate_pnl :: "(string \<Rightarrow> real) \<Rightarrow> (string \<times> position) list \<Rightarrow> (string, real) dict" where
  "calculate_pnl price [] = []"
| "calculate_pnl price ((symbol, pos) # items) =
     (symbol, calculate_position_pnl pos (price symbol)) # calculate_pnl price items"

definition halt_trading :: "RealTimeRiskMonitor \<Rightarrow> RealTimeRiskMonitor" where
  "halt_trading m = m\<lparr> actions := actions m @ [HaltTrading] \<rparr>"

definition liquidate_positions :: "RealTimeRiskMonitor \<Rightarrow> RealTimeRiskMonitor" where
  "liquidate_positions m = m\<lparr> actions := actions m @ [LiquidatePositions] \<rparr>"

definition send_alert ::
  "(string \<Rightarrow> nat option) \<Rightarrow> string \<Rightarrow> RealTimeRiskMonitor
     \<Rightarrow> monitor_error option \<times> RealTimeRiskMonitor" where
  "send_alert post alert_message m =
     (let m1 = m\<lparr> actions := actions m @ [SendAlert alert_message] \<rparr>
      in case post alert_message of
           None \<Rightarrow> (Some RequestException, m1)
         | Some status_code \<Rightarrow> (None, m1))"

definition trigger_risk_alert ::
  "(string \<Rightarrow> nat option) \<Rightarrow> string \<Rightarrow> RealTimeRiskMonitor
     \<Rightarrow> monitor_error option \<times> RealTimeRiskMonitor" where
  "trigger_risk_alert post message m =
     send_alert post message (liquidate_positions (halt_trading m))"

fun check_asset_classes ::
  "(string \<Rightarrow> nat option) \<Rightarrow> (string \<times> real) list \<Rightarrow> RealTimeRiskMonitor
     \<Rightarrow> monitor_error option \<times> RealTimeRiskMonitor" where
  "check_asset_classes post [] m = (None, m)"
| "check_asset_classes post ((asset_class, exposure) # items) m =
     (case map_of (lim_max_exposure_by_asset_class (mon_risk_limits m)) asset_class of
        None \<Rightarrow> (Some (KeyError asset_class), m)
      | Some cap \<Rightarrow>
          if exposure > cap
          then (case trigger_risk_alert post (''Max exposure in '' @ asset_class @ '' exceeded'') m of
                  (Some e, m1) \<Rightarrow> (Some e, m1)
                | (None, m1) \<Rightarrow> check_asset_classes post items m1)
          else check_asset_classes post items m)"

definition monitor_check_risk_limits ::
  "(string \<Rightarrow> nat option) \<Rightarrow> RealTimeRiskMonitor
     \<Rightarrow> monitor_error option \<times> RealTimeRiskMonitor" where
  "monitor_check_risk_limits post m =
     (case (if total_exposure m > lim_max_position_size (mon_risk_limits m)
            then trigger_risk_alert post ''Max position size exceeded'' m
            else (None, m)) of
        (Some e, m1) \<Rightarrow> (Some e, m1)
      | (None, m1) \<Rightarrow>
          (case (if total_pnl m1 < lim_max_loss (mon_risk_limits m1)
                 then trigger_risk_alert post ''Max loss threshold breached'' m1
                 else (None, m1)) of
             (Some e, m2) \<Rightarrow> (Some e, m2)
           | (None, m2) \<Rightarrow> check_asset_classes post (exposure_by_asset_class m2) m2))"

text \<open>
  One pass through the body of the loop of \<open>monitor_risk\<close>, given what
  \<open>get_positions()\<close> returns and the price \<open>get_latest_data\<close> gives for each symbol.
  An exception raised by \<open>check_risk_limits\<close> is caught and logged by the loop, which
  goes on with the state as it is. \<open>monitor_risk\<close> runs one pass for each element of
  \<open>ticks\<close>, the passes made while \<open>running\<close> is set.
\<close>

definition monitor_iteration ::
  "(string \<Rightarrow> nat option) \<Rightarrow> (string, position) dict \<times> (string \<Rightarrow> real)
     \<Rightarrow> RealTimeRiskMonitor \<Rightarrow> RealTimeRiskMonitor" where
  "monitor_iteration post tick m =
     (let m1 = m\<lparr> positions := fst tick \<rparr>;
          m2 = update_exposure_by_asset_class m1;
          m3 = m2\<lparr> pnls := calculate_pnl (snd tick) (positions m2) \<rparr>;
          m4 = m3\<lparr> total_exposure := sum_list (map (\<lambda>pos. \<bar>quantity pos\<bar>) (map snd (positions m3))) \<rparr>;
          m5 = m4\<lparr> total_pnl := sum_list (map snd (pnls m4)) \<rparr>
      in snd (monitor_check_risk_limits post m5))"

definition monitor_risk ::
  "(string \<Rightarrow> nat option) \<Rightarrow> ((string, position) dict \<times> (string \<Rightarrow> real)) list
     \<Rightarrow> RealTimeRiskMonitor \<Rightarrow> RealTimeRiskMonitor" where
  "monitor_risk post ticks m = fold (monitor_iteration post) ticks m"

text \<open>
  The alert messages of the rules that a state violates, in the order
  \<open>check_risk_limits\<close> examines them, and the three calls \<open>trigger_risk_alert\<close> makes
  for a message.
\<close>

definition asset_violations :: "monitor_limits \<Rightarrow> (string \<times> real) list \<Rightarrow> string list" where
  "asset_violations limits items =
     map (\<lambda>(asset_class, exposure). ''Max exposure in '' @ asset_class @ '' exceeded'')
         (filter (\<lambda>(asset_class, exposure).
                    case map_of (lim_max_exposure_by_asset_class limits) asset_class of
                      None \<Rightarrow> False
                    | Some cap \<Rightarrow> exposure > cap)
            items)"

definition violated_rules :: "RealTimeRiskMonitor \<Rightarrow> string list" where
  "violated_rules m =
     (if total_exposure m > lim_max_position_size (mon_risk_limits m)
      then [''Max position size exceeded''] else [])
     @ (if total_pnl m < lim_max_loss (mon_risk_limits m)
        then [''Max loss threshold breached''] else [])
     @ asset_violations (mon_risk_limits m) (exposure_by_asset_class m)"

definition enforcement :: "string \<Rightarrow> enforcement_action list" where
  "enforcement message = [HaltTrading, LiquidatePositions, SendAlert message]"


section \<open>The order-rate counter of RiskLimits\<close>



lemma check_order_rate_last: "last_order_time (snd (check_order_rate t s)) = Some t"
  by (simp add: check_order_rate_def Let_def split: option.splits)













section \<open>Daily loss: reset, accumulation and evaluation\<close>

text \<open>
  Claim C7 as stated fails for a negative \<open>max_loss_per_day\<close>, which the
  constructor accepts: after the reset the loss is 0, and \<open>abs(0) > -1\<close> holds, so
  the check returns \<open>False\<close> and sets the breached flag again.
\<close>

theorem reset_then_check_negative_limit_counterexample:
  "\<not> fst (check_daily_loss_limit (reset_daily_limits (RiskLimits_init 100000 (- 1) 10000 20000 5)))
   \<and> daily_limit_breached
       (snd (check_daily_loss_limit (reset_daily_limits (RiskLimits_init 100000 (- 1) 10000 20000 5))))"
  by (simp add: check_daily_loss_limit_def reset_daily_limits_def RiskLimits_init_def)

text \<open>
  Claim C7, for a limit that is not negative: whatever losses and breaches were recorded
  before, \<open>reset_daily_limits\<close> followed at once by \<open>check_daily_loss_limit\<close>
  returns \<open>True\<close>, changes nothing further, and leaves the breached flag cleared.
\<close>

theorem reset_then_check_passes:
  "0 \<le> max_loss_per_day s \<Longrightarrow>
   check_daily_loss_limit (reset_daily_limits s) = (True, reset_daily_limits s)
   \<and> \<not> daily_limit_breached (reset_daily_limits s)"
  by (simp add: check_daily_loss_limit_def reset_daily_limits_def)

text \<open>
  A tracker with a limit of 50000 that recorded a loss of 70000 and was found breached:
  after the reset the check passes and the flag is clear.
\<close>

theorem reset_then_check_passes_witness:
  "0 \<le> max_loss_per_day (snd (check_daily_loss_limit
          (update_trade_loss 70000 (RiskLimits_init 100000 50000 10000 20000 5))))
   \<and> daily_limit_breached (snd (check_daily_loss_limit
          (update_trade_loss 70000 (RiskLimits_init 100000 50000 10000 20000 5))))
   \<and> fst (check_daily_loss_limit (reset_daily_limits (snd (check_daily_loss_limit
          (update_trade_loss 70000 (RiskLimits_init 100000 50000 10000 20000 5))))))
   \<and> \<not> daily_limit_breached (reset_daily_limits (snd (check_daily_loss_limit
          (update_trade_loss 70000 (RiskLimits_init 100000 50000 10000 20000 5)))))"
  using reset_then_check_passes
    [of "snd (check_daily_loss_limit
          (update_trade_loss 70000 (RiskLimits_init 100000 50000 10000 20000 5)))"]
  by (simp add: check_daily_loss_limit_def update_trade_loss_def RiskLimits_init_def)

lemma evaluate_risk_pass:
  "\<bar>current_loss_per_day s\<bar> \<le> max_loss_per_day s \<Longrightarrow> evaluate_risk now s = check_order_rate now s"
  by (simp add: evaluate_risk_def check_daily_loss_limit_def Let_def split: prod.splits)

lemma evaluate_risk_fail:
  "\<bar>current_loss_per_day s\<bar> > max_loss_per_day s \<Longrightarrow>
   evaluate_risk now s = (False, s\<lparr> daily_limit_breached := True \<rparr>)"
  by (simp add: evaluate_risk_def check_daily_loss_limit_def Let_def)

lemma check_order_rate_counter:
  "orders_this_minute (snd (check_order_rate now s)) =
     (case last_order_time s of
        None \<Rightarrow> 1
      | Some t \<Rightarrow> if timedelta_seconds now t < 60 then orders_this_minute s + 1 else 1)"
  by (simp add: check_order_rate_def Let_def split: option.splits)

text \<open>
  Claim C10. Whenever the daily-loss check passes, \<open>evaluate_risk\<close> is exactly a
  call of \<open>check_order_rate\<close>: it returns that call's result and leaves that call's
  state, so \<open>last_order_time\<close> becomes the time of the evaluation and
  \<open>orders_this_minute\<close> is incremented (or set to 1 for the first call and after a
  gap), though no order was submitted.
\<close>

theorem evaluate_risk_records_an_order:
  "\<bar>current_loss_per_day s\<bar> \<le> max_loss_per_day s \<Longrightarrow>
   evaluate_risk now s = check_order_rate now s
   \<and> last_order_time (snd (evaluate_risk now s)) = Some now
   \<and> orders_this_minute (snd (evaluate_risk now s)) =
       (case last_order_time s of
          None \<Rightarrow> 1
        | Some t \<Rightarrow> if timedelta_seconds now t < 60 then orders_this_minute s + 1 else 1)"
  by (simp add: evaluate_risk_pass check_order_rate_counter check_order_rate_last)

text \<open>
  With a limit of one order per minute, two evaluations one second apart and no order at
  all: the first sets the counter to 1, the second raises it to 2 and fails on the order
  rate.
\<close>

theorem evaluate_risk_records_an_order_witness:
  "\<bar>current_loss_per_day (snd (evaluate_risk 0 (RiskLimits_init 100000 50000 10000 20000 1)))\<bar>
     \<le> max_loss_per_day (snd (evaluate_risk 0 (RiskLimits_init 100000 50000 10000 20000 1)))
   \<and> last_order_time (snd (evaluate_risk 0 (RiskLimits_init 100000 50000 10000 20000 1))) = Some 0
   \<and> orders_this_minute (snd (evaluate_risk 0 (RiskLimits_init 100000 50000 10000 20000 1))) = 1
   \<and> orders_this_minute (snd (evaluate_risk 1000000
         (snd (evaluate_risk 0 (RiskLimits_init 100000 50000 10000 20000 1))))) = 2
   \<and> \<not> fst (evaluate_risk 1000000
         (snd (evaluate_risk 0 (RiskLimits_init 100000 50000 10000 20000 1))))"
  using evaluate_risk_records_an_order
    [of "snd (evaluate_risk 0 (RiskLimits_init 100000 50000 10000 20000 1))" 1000000]
  by (simp add: evaluate_risk_def check_daily_loss_limit_def check_order_rate_def Let_def
      timedelta_seconds_def RiskLimits_init_def)

lemma fold_update_trade_loss:
  "current_trade_loss (fold update_trade_loss ls s) = current_trade_loss s + sum_list ls
   \<and> current_loss_per_day (fold update_trade_loss ls s) = current_loss_per_day s + sum_list ls"
  by (induction ls arbitrary: s) (simp_all add: update_trade_loss_def)

lemma map_of_dict_set: "map_of (dict_set k v d) = (map_of d)(k \<mapsto> v)"
  by (induction d) (auto simp add: fun_eq_iff)

lemma dict_get0_dict_add:
  "dict_get0 (dict_add k x d) k' = (if k' = k then dict_get0 d k + x else dict_get0 d k')"
  by (simp add: dict_get0_def dict_add_def map_of_dict_set split: option.splits)

lemma record_trade_daily_loss:
  "today = start_of_day rm \<Longrightarrow>
   daily_loss_for_symbol symbol (record_trade today t rm) =
     (if trade_symbol t = symbol then daily_loss_for_symbol symbol rm + trade_loss t
      else daily_loss_for_symbol symbol rm)
   \<and> start_of_day (record_trade today t rm) = start_of_day rm"
  by (simp add: record_trade_def update_daily_loss_def track_trade_metrics_def Let_def
      daily_loss_for_symbol_def dict_get0_dict_add)

lemma fold_record_trade_daily_loss:
  "today = start_of_day rm \<Longrightarrow>
   daily_loss_for_symbol symbol (fold (record_trade today) ts rm) =
     daily_loss_for_symbol symbol rm
       + sum_list (map trade_loss (filter (\<lambda>t. trade_symbol t = symbol) ts))"
proof (induction ts arbitrary: rm)
  case Nil
  then show ?case by simp
next
  case (Cons t ts)
  have "today = start_of_day (record_trade today t rm)"
    using record_trade_daily_loss [OF Cons.prems, of symbol t] Cons.prems by simp
  from Cons.IH [OF this] record_trade_daily_loss [OF Cons.prems, of symbol t]
  show ?case by simp
qed

text \<open>
  Claim C8, as the code has it. \<open>update_trade_loss\<close> adds the loss to
  \<open>current_trade_loss\<close> as it does to \<open>current_loss_per_day\<close>: after any sequence
  of calls each of the two holds its former value plus the sum of all the losses. In
  \<open>RiskManager\<close>, the per-symbol daily loss accumulates within the day: after any
  sequence of trades recorded on the day \<open>start_of_day\<close>, the entry of a symbol is its
  former value plus the sum of the losses of the trades in that symbol.
\<close>

theorem trade_loss_accumulates:
  "current_trade_loss (fold update_trade_loss ls s) = current_trade_loss s + sum_list ls
   \<and> current_loss_per_day (fold update_trade_loss ls s) = current_loss_per_day s + sum_list ls
   \<and> (today = start_of_day rm \<longrightarrow>
        daily_loss_for_symbol symbol (fold (record_trade today) ts rm) =
          daily_loss_for_symbol symbol rm
            + sum_list (map trade_loss (filter (\<lambda>t. trade_symbol t = symbol) ts)))"
  using fold_update_trade_loss [of ls s] fold_record_trade_daily_loss [of today rm symbol ts]
  by simp

text \<open>
  Claim C8 as stated fails: after a loss of 100 and then a loss of 50,
  \<open>current_trade_loss\<close> is 150, not the 50 of the most recent trade.
\<close>

theorem current_trade_loss_counterexample:
  "current_trade_loss (update_trade_loss 50 (update_trade_loss 100
      (RiskLimits_init 100000 50000 10000 20000 5))) \<noteq> 50"
  by (simp add: update_trade_loss_def RiskLimits_init_def)

text \<open>
  The losses 100 and 50 leave both counters at 150; the three trades of the module's usage
  block, recorded on the same day, leave 700 as the daily loss of AAPL.
\<close>

theorem trade_loss_accumulates_witness:
  "current_trade_loss (fold update_trade_loss [100, 50] (RiskLimits_init 100000 50000 10000 20000 5)) = 150
   \<and> current_loss_per_day (fold update_trade_loss [100, 50] (RiskLimits_init 100000 50000 10000 20000 5)) = 150
   \<and> (7::int) = start_of_day (RiskManager_init 7 1000 5000 [])
   \<and> daily_loss_for_symbol ''AAPL''
        (fold (record_trade 7)
           [\<lparr>trade_symbol = ''AAPL'', trade_profit = 500, trade_loss = 100\<rparr>,
            \<lparr>trade_symbol = ''GOOG'', trade_profit = 700, trade_loss = 300\<rparr>,
            \<lparr>trade_symbol = ''AAPL'', trade_profit = 200, trade_loss = 600\<rparr>]
           (RiskManager_init 7 1000 5000 [])) = 700"
  using trade_loss_accumulates
    [of "[100, 50]" "RiskLimits_init 100000 50000 10000 20000 5" 7
        "RiskManager_init 7 1000 5000 []" "''AAPL''"
        "[\<lparr>trade_symbol = ''AAPL'', trade_profit = 500, trade_loss = 100\<rparr>,
          \<lparr>trade_symbol = ''GOOG'', trade_profit = 700, trade_loss = 300\<rparr>,
          \<lparr>trade_symbol = ''AAPL'', trade_profit = 200, trade_loss = 600\<rparr>]"]
  by (simp add: RiskLimits_init_def RiskManager_init_def daily_loss_for_symbol_def dict_get0_def)


section \<open>Halting, resets and the position books of RiskManager\<close>

lemma rl_step_keeps_breach:
  "c \<noteq> ResetDailyLimits \<Longrightarrow> daily_limit_breached s \<Longrightarrow> daily_limit_breached (rl_step c s)"
  by (cases c)
     (simp_all add: update_position_size_def update_trade_loss_def check_daily_loss_limit_def
        check_order_rate_def close_position_def evaluate_risk_def Let_def
        split: option.splits prod.splits)

lemma rl_run_keeps_breach:
  "ResetDailyLimits \<notin> set calls \<Longrightarrow> daily_limit_breached s \<Longrightarrow>
   daily_limit_breached (rl_run calls s)"
  unfolding rl_run_def
proof (induction calls arbitrary: s)
  case Nil
  then show ?case by simp
next
  case (Cons c calls)
  from Cons.prems have "c \<noteq> ResetDailyLimits" and rest: "ResetDailyLimits \<notin> set calls"
    by auto
  then have "daily_limit_breached (rl_step c s)"
    using Cons.prems(2) by (simp add: rl_step_keeps_breach)
  from Cons.IH [OF rest this] show ?case by simp
qed

lemma calculate_metric_reset: "calculate_metric metric_name (reset_risk rm) = 0"
  by (simp add: calculate_metric_def calculate_max_drawdown_def calculate_volatility_def
      calculate_sharpe_ratio_def reset_risk_def Let_def)

lemma check_custom_limits_reset:
  "\<forall>l \<in> set ls. 0 \<le> limit_value l \<Longrightarrow>
   check_custom_limits ls (reset_risk rm) = (True, [])"
  by (induction ls) (simp_all add: check_custom_limit_def calculate_metric_reset)

lemma check_risk_limits_reset:
  assumes "0 \<le> rm_max_position_size rm" "0 \<le> max_daily_loss rm"
    and "\<forall>l \<in> set (risk_limits rm). 0 \<le> limit_value l"
  shows "check_risk_limits (reset_risk rm) = (True, [])"
proof -
  have "check_custom_limits (risk_limits rm) (reset_risk rm) = (True, [])"
    using assms(3) by (rule check_custom_limits_reset)
  then show ?thesis
    using assms(1,2) by (simp add: check_risk_limits_def reset_risk_def)
qed

lemma enforce_position_limits_reset:
  "enforce_position_limits (reset_risk rm) = enforce_position_limits rm"
  by (simp add: enforce_position_limits_def reset_risk_def)

lemma monitoring_resets:
  "enforce_position_limits rm \<Longrightarrow> current_loss rm \<ge> max_daily_loss rm \<Longrightarrow>
   real_time_risk_monitoring rm = (False, reset_risk rm)"
  by (simp add: real_time_risk_monitoring_def enforce_stop_loss_def)

lemma monitoring_blocked:
  "\<not> enforce_position_limits rm \<Longrightarrow> real_time_risk_monitoring rm = (False, rm)"
  by (simp add: real_time_risk_monitoring_def)

lemma monitoring_after_reset:
  assumes "enforce_position_limits rm" "0 \<le> rm_max_position_size rm" "0 < max_daily_loss rm"
    and "\<forall>l \<in> set (risk_limits rm). 0 \<le> limit_value l"
  shows "real_time_risk_monitoring (reset_risk rm) = (True, reset_risk rm)"
proof -
  have c: "check_risk_limits (reset_risk rm) = (True, [])"
    using assms(2,3,4) by (simp add: check_risk_limits_reset)
  have s: "enforce_stop_loss (reset_risk rm) = (False, reset_risk rm)"
    using assms(3) by (simp add: enforce_stop_loss_def reset_risk_def)
  show ?thesis
    using assms(1) c s
    by (simp add: real_time_risk_monitoring_def enforce_position_limits_reset)
qed

text \<open>
  Claim C3, as the code has it. In \<open>RiskLimits\<close> the breached flag is sticky: once
  set, no sequence of calls without \<open>reset_daily_limits\<close> (checks, evaluations, loss
  and position updates, closing a position) clears it. In \<open>RiskManager\<close> the breach
  is cleared by the monitoring call itself: when every per-symbol position is within
  \<open>max_position_size\<close> and \<open>current_loss >= max_daily_loss\<close>,
  \<open>real_time_risk_monitoring\<close> returns \<open>False\<close> and leaves the state that
  \<open>reset_risk\<close> produces; when a per-symbol position is over the limit it returns
  \<open>False\<close> and resets nothing. For limits and custom limit values that are not
  negative the reset state passes \<open>check_risk_limits\<close>, and with a positive
  \<open>max_daily_loss\<close> it passes the next \<open>real_time_risk_monitoring\<close> unchanged.
\<close>

theorem breach_flag_sticky_and_monitoring_resets:
  "(ResetDailyLimits \<notin> set calls \<longrightarrow> daily_limit_breached s \<longrightarrow>
      daily_limit_breached (rl_run calls s))
   \<and> (enforce_position_limits rm \<longrightarrow> current_loss rm \<ge> max_daily_loss rm \<longrightarrow>
        real_time_risk_monitoring rm = (False, reset_risk rm))
   \<and> (\<not> enforce_position_limits rm \<longrightarrow> real_time_risk_monitoring rm = (False, rm))
   \<and> (0 \<le> rm_max_position_size rm \<longrightarrow> 0 \<le> max_daily_loss rm \<longrightarrow>
        (\<forall>l \<in> set (risk_limits rm). 0 \<le> limit_value l) \<longrightarrow>
        check_risk_limits (reset_risk rm) = (True, []))
   \<and> (enforce_position_limits rm \<longrightarrow> 0 \<le> rm_max_position_size rm \<longrightarrow>
        0 < max_daily_loss rm \<longrightarrow> (\<forall>l \<in> set (risk_limits rm). 0 \<le> limit_value l) \<longrightarrow>
        real_time_risk_monitoring (reset_risk rm) = (True, reset_risk rm))"
  using rl_run_keeps_breach [of calls s] monitoring_resets [of rm] monitoring_blocked [of rm]
    check_risk_limits_reset [of rm] monitoring_after_reset [of rm]
  by blast

text \<open>
  A tracker breached by a loss of 70000 against a limit of 50000 stays flagged through a
  gain that cancels the loss, a check, an evaluation, a close and an order. A manager with
  the custom limits of the module's usage block and a loss of 6000 against a limit of
  5000 fails the check, is reset by one monitoring call, and then passes the check and
  the next monitoring call. A manager holding 2000 AAPL and -2000 GOOG against a
  position limit of 1000 keeps its loss of 6000 through the monitoring call.
\<close>

theorem breach_flag_sticky_and_monitoring_resets_witness:
  "daily_limit_breached (snd (check_daily_loss_limit
          (update_trade_loss 70000 (RiskLimits_init 100000 50000 10000 20000 5))))
   \<and> daily_limit_breached (rl_run [UpdateTradeLoss (- 70000), CheckDailyLossLimit, EvaluateRisk 0,
          ClosePosition 1 0, CheckOrderRate 2] (snd (check_daily_loss_limit
          (update_trade_loss 70000 (RiskLimits_init 100000 50000 10000 20000 5)))))
   \<and> \<not> fst (check_risk_limits (record_trade 7 \<lparr>trade_symbol = ''AAPL'', trade_profit = 0, trade_loss = 6000\<rparr>
        (RiskManager_init 7 1000 5000
           [\<lparr>limit_name = ''Max Drawdown'', limit_metric = ''max_drawdown'', limit_value = 2000\<rparr>,
            \<lparr>limit_name = ''Volatility'', limit_metric = ''volatility'', limit_value = 5 / 100\<rparr>,
            \<lparr>limit_name = ''Sharpe Ratio'', limit_metric = ''sharpe_ratio'', limit_value = 15 / 10\<rparr>])))
   \<and> real_time_risk_monitoring (record_trade 7 \<lparr>trade_symbol = ''AAPL'', trade_profit = 0, trade_loss = 6000\<rparr>
        (RiskManager_init 7 1000 5000
           [\<lparr>limit_name = ''Max Drawdown'', limit_metric = ''max_drawdown'', limit_value = 2000\<rparr>,
            \<lparr>limit_name = ''Volatility'', limit_metric = ''volatility'', limit_value = 5 / 100\<rparr>,
            \<lparr>limit_name = ''Sharpe Ratio'', limit_metric = ''sharpe_ratio'', limit_value = 15 / 10\<rparr>]))
       = (False, reset_risk (record_trade 7 \<lparr>trade_symbol = ''AAPL'', trade_profit = 0, trade_loss = 6000\<rparr>
        (RiskManager_init 7 1000 5000
           [\<lparr>limit_name = ''Max Drawdown'', limit_metric = ''max_drawdown'', limit_value = 2000\<rparr>,
            \<lparr>limit_name = ''Volatility'', limit_metric = ''volatility'', limit_value = 5 / 100\<rparr>,
            \<lparr>limit_name = ''Sharpe Ratio'', limit_metric = ''sharpe_ratio'', limit_value = 15 / 10\<rparr>])))
   \<and> check_risk_limits (reset_risk (record_trade 7 \<lparr>trade_symbol = ''AAPL'', trade_profit = 0, trade_loss = 6000\<rparr>
        (RiskManager_init 7 1000 5000
           [\<lparr>limit_name = ''Max Drawdown'', limit_metric = ''max_drawdown'', limit_value = 2000\<rparr>,
            \<lparr>limit_name = ''Volatility'', limit_metric = ''volatility'', limit_value = 5 / 100\<rparr>,
            \<lparr>limit_name = ''Sharpe Ratio'', limit_metric = ''sharpe_ratio'', limit_value = 15 / 10\<rparr>]))) = (True, [])
   \<and> real_time_risk_monitoring (reset_risk (record_trade 7 \<lparr>trade_symbol = ''AAPL'', trade_profit = 0, trade_loss = 6000\<rparr>
        (RiskManager_init 7 1000 5000
           [\<lparr>limit_name = ''Max Drawdown'', limit_metric = ''max_drawdown'', limit_value = 2000\<rparr>,
            \<lparr>limit_name = ''Volatility'', limit_metric = ''volatility'', limit_value = 5 / 100\<rparr>,
            \<lparr>limit_name = ''Sharpe Ratio'', limit_metric = ''sharpe_ratio'', limit_value = 15 / 10\<rparr>])))
       = (True, reset_risk (record_trade 7 \<lparr>trade_symbol = ''AAPL'', trade_profit = 0, trade_loss = 6000\<rparr>
        (RiskManager_init 7 1000 5000
           [\<lparr>limit_name = ''Max Drawdown'', limit_metric = ''max_drawdown'', limit_value = 2000\<rparr>,
            \<lparr>limit_name = ''Volatility'', limit_metric = ''volatility'', limit_value = 5 / 100\<rparr>,
            \<lparr>limit_name = ''Sharpe Ratio'', limit_metric = ''sharpe_ratio'', limit_value = 15 / 10\<rparr>])))
   \<and> \<not> enforce_position_limits (record_trade 7 \<lparr>trade_symbol = ''AAPL'', trade_profit = 0, trade_loss = 6000\<rparr>
        (update_position (- 2000) ''GOOG''
           (update_position 2000 ''AAPL'' (RiskManager_init 7 1000 5000 []))))
   \<and> real_time_risk_monitoring (record_trade 7 \<lparr>trade_symbol = ''AAPL'', trade_profit = 0, trade_loss = 6000\<rparr>
        (update_position (- 2000) ''GOOG''
           (update_position 2000 ''AAPL'' (RiskManager_init 7 1000 5000 []))))
       = (False, (record_trade 7 \<lparr>trade_symbol = ''AAPL'', trade_profit = 0, trade_loss = 6000\<rparr>
        (update_position (- 2000) ''GOOG''
           (update_position 2000 ''AAPL'' (RiskManager_init 7 1000 5000 [])))))
   \<and> current_loss (snd (real_time_risk_monitoring (record_trade 7 \<lparr>trade_symbol = ''AAPL'', trade_profit = 0, trade_loss = 6000\<rparr>
        (update_position (- 2000) ''GOOG''
           (update_position 2000 ''AAPL'' (RiskManager_init 7 1000 5000 [])))))) = 6000"
proof -
  let ?calls = "[UpdateTradeLoss (- 70000), CheckDailyLossLimit, EvaluateRisk 0,
          ClosePosition 1 0, CheckOrderRate 2]"
  let ?s = "(snd (check_daily_loss_limit
          (update_trade_loss 70000 (RiskLimits_init 100000 50000 10000 20000 5))))"
  let ?a = "(record_trade 7 \<lparr>trade_symbol = ''AAPL'', trade_profit = 0, trade_loss = 6000\<rparr>
        (RiskManager_init 7 1000 5000
           [\<lparr>limit_name = ''Max Drawdown'', limit_metric = ''max_drawdown'', limit_value = 2000\<rparr>,
            \<lparr>limit_name = ''Volatility'', limit_metric = ''volatility'', limit_value = 5 / 100\<rparr>,
            \<lparr>limit_name = ''Sharpe Ratio'', limit_metric = ''sharpe_ratio'', limit_value = 15 / 10\<rparr>]))"
  let ?b = "(record_trade 7 \<lparr>trade_symbol = ''AAPL'', trade_profit = 0, trade_loss = 6000\<rparr>
        (update_position (- 2000) ''GOOG''
           (update_position 2000 ''AAPL'' (RiskManager_init 7 1000 5000 []))))"
  have h1: "ResetDailyLimits \<notin> set ?calls" by simp
  have h2: "daily_limit_breached ?s"
    by (simp add: check_daily_loss_limit_def update_trade_loss_def RiskLimits_init_def)
  have a1: "enforce_position_limits ?a"
    by (simp add: enforce_position_limits_def record_trade_def update_daily_loss_def
        track_trade_metrics_def RiskManager_init_def Let_def)
  have a2: "current_loss ?a \<ge> max_daily_loss ?a"
    by (simp add: record_trade_def update_daily_loss_def track_trade_metrics_def
        RiskManager_init_def Let_def)
  have a3: "0 \<le> rm_max_position_size ?a" and a4: "0 < max_daily_loss ?a"
    and a5: "\<forall>l \<in> set (risk_limits ?a). 0 \<le> limit_value l"
    by (simp_all add: record_trade_def update_daily_loss_def track_trade_metrics_def
        RiskManager_init_def Let_def)
  have a6: "\<not> fst (check_risk_limits ?a)"
    by (simp add: check_risk_limits_def record_trade_def update_daily_loss_def
        track_trade_metrics_def RiskManager_init_def Let_def)
  have b1: "\<not> enforce_position_limits ?b"
    by (simp add: enforce_position_limits_def record_trade_def update_daily_loss_def
        track_trade_metrics_def update_position_def dict_add_def RiskManager_init_def Let_def)
  have b2: "current_loss ?b = 6000"
    by (simp add: record_trade_def update_daily_loss_def track_trade_metrics_def
        update_position_def RiskManager_init_def Let_def)
  note ra = breach_flag_sticky_and_monitoring_resets [of ?calls ?s ?a]
  note rb = breach_flag_sticky_and_monitoring_resets [of ?calls ?s ?b]
  have c1: "daily_limit_breached (rl_run ?calls ?s)"
    using ra h1 h2 by blast
  have c2: "real_time_risk_monitoring ?a = (False, reset_risk ?a)"
    using ra a1 a2 by blast
  have c3: "check_risk_limits (reset_risk ?a) = (True, [])"
    using ra a3 a4 a5 by (meson less_imp_le)
  have c4: "real_time_risk_monitoring (reset_risk ?a) = (True, reset_risk ?a)"
    using ra a1 a3 a4 a5 by blast
  have c5: "real_time_risk_monitoring ?b = (False, ?b)"
    using rb b1 by blast
  have c6: "current_loss (snd (real_time_risk_monitoring ?b)) = 6000"
    unfolding c5 using b2 by simp
  from h2 c1 a6 c2 c3 c4 b1 c5 c6 show ?thesis by blast
qed

text \<open>
  Claim C3 as stated fails. A manager whose recorded loss of 6000 exceeds the limit of 5000
  fails \<open>check_risk_limits\<close>. One call of \<open>real_time_risk_monitoring\<close>, with no
  call of \<open>reset_risk\<close> by the caller, leaves a manager that passes
  \<open>check_risk_limits\<close> and passes the next \<open>real_time_risk_monitoring\<close>.
\<close>

theorem automatic_recovery_counterexample:
  "ResetRisk \<notin> set [RealTimeRiskMonitoring]
   \<and> \<not> fst (check_risk_limits
        (record_trade 7 \<lparr>trade_symbol = ''AAPL'', trade_profit = 0, trade_loss = 6000\<rparr>
           (RiskManager_init 7 1000 5000 [])))
   \<and> fst (check_risk_limits
        (rm_run [RealTimeRiskMonitoring]
           (record_trade 7 \<lparr>trade_symbol = ''AAPL'', trade_profit = 0, trade_loss = 6000\<rparr>
              (RiskManager_init 7 1000 5000 []))))
   \<and> fst (real_time_risk_monitoring
        (rm_run [RealTimeRiskMonitoring]
           (record_trade 7 \<lparr>trade_symbol = ''AAPL'', trade_profit = 0, trade_loss = 6000\<rparr>
              (RiskManager_init 7 1000 5000 []))))"
  by (simp add: rm_run_def real_time_risk_monitoring_def enforce_position_limits_def
      enforce_stop_loss_def reset_risk_def check_risk_limits_def record_trade_def
      update_daily_loss_def track_trade_metrics_def RiskManager_init_def Let_def dict_add_def)

lemma custom_limits_no_position:
  "PositionSizeExceeded \<notin> set (snd (check_custom_limits ls rm))"
  by (induction ls) simp_all

text \<open>
  Claim C5. \<open>check_risk_limits\<close> reports the position-size violation exactly when the
  absolute aggregate position strictly exceeds \<open>max_position_size\<close>, and then fails;
  \<open>can_take_position\<close> accepts exactly when the absolute resulting position does not
  strictly exceed the limit. An exposure equal to the limit is not a violation.
\<close>

theorem position_limit_inclusive:
  "(PositionSizeExceeded \<in> set (snd (check_risk_limits rm)))
     = (\<bar>rm_current_position_size rm\<bar> > rm_max_position_size rm)
   \<and> (\<bar>rm_current_position_size rm\<bar> > rm_max_position_size rm \<longrightarrow> \<not> fst (check_risk_limits rm))
   \<and> can_take_position p s = (\<not> \<bar>current_position_size s + p\<bar> > max_position_size s)"
  by (simp add: check_risk_limits_def can_take_position_def custom_limits_no_position)

text \<open>
  With a limit of 1000, a position of exactly 1000 passes and 1001 is flagged; with a
  limit of 100000 and 50000 held, a further 50000 is accepted and 50001 is refused.
\<close>

theorem position_limit_inclusive_witness:
  "PositionSizeExceeded \<notin> set (snd (check_risk_limits
       (update_position 1000 ''AAPL'' (RiskManager_init 7 1000 5000 []))))
   \<and> fst (check_risk_limits (update_position 1000 ''AAPL'' (RiskManager_init 7 1000 5000 [])))
   \<and> PositionSizeExceeded \<in> set (snd (check_risk_limits
       (update_position 1001 ''AAPL'' (RiskManager_init 7 1000 5000 []))))
   \<and> \<not> fst (check_risk_limits (update_position 1001 ''AAPL'' (RiskManager_init 7 1000 5000 [])))
   \<and> can_take_position 50000 (update_position_size 0 50000 (RiskLimits_init 100000 50000 10000 20000 5))
   \<and> \<not> can_take_position 50001 (update_position_size 0 50000 (RiskLimits_init 100000 50000 10000 20000 5))"
  using position_limit_inclusive
    [of "update_position 1000 ''AAPL'' (RiskManager_init 7 1000 5000 [])" 50000
        "update_position_size 0 50000 (RiskLimits_init 100000 50000 10000 20000 5)"]
    position_limit_inclusive
    [of "update_position 1001 ''AAPL'' (RiskManager_init 7 1000 5000 [])" 50001
        "update_position_size 0 50000 (RiskLimits_init 100000 50000 10000 20000 5)"]
  by (simp add: update_position_def RiskManager_init_def update_position_size_def
      RiskLimits_init_def check_risk_limits_def)

text \<open>
  Claim C6 at a failing input. For the trade history with profits 10 and then 5, the
  cumulative profit is 10 and then 15: it never declines, so its largest peak-to-current
  decline is 0. \<open>_calculate_max_drawdown\<close> takes the peak and the decline over the
  per-trade profits themselves and returns 5.
\<close>

theorem max_drawdown_per_trade_not_cumulative:
  "calculate_max_drawdown
     (record_trade 7 \<lparr>trade_symbol = ''AAPL'', trade_profit = 5, trade_loss = 0\<rparr>
        (record_trade 7 \<lparr>trade_symbol = ''AAPL'', trade_profit = 10, trade_loss = 0\<rparr>
           (RiskManager_init 7 1000 5000 []))) = 5
   \<and> cumulative_max_drawdown
       (trade_history
          (record_trade 7 \<lparr>trade_symbol = ''AAPL'', trade_profit = 5, trade_loss = 0\<rparr>
             (record_trade 7 \<lparr>trade_symbol = ''AAPL'', trade_profit = 10, trade_loss = 0\<rparr>
                (RiskManager_init 7 1000 5000 [])))) = 0"
  by (simp add: calculate_max_drawdown_def cumulative_max_drawdown_def record_trade_def
      update_daily_loss_def track_trade_metrics_def RiskManager_init_def Let_def)

lemma sum_dict_set:
  "sum_list (map snd (dict_set k v d)) =
     sum_list (map snd d) + v - (case map_of d k of None \<Rightarrow> 0 | Some w \<Rightarrow> (w::int))"
  by (induction d) (auto split: option.splits)

lemma sum_dict_add:
  "sum_list (map snd (dict_add k x d)) = sum_list (map snd d) + x"
  by (simp add: dict_add_def sum_dict_set map_of_dict_set split: option.splits)

lemma update_position_invariant:
  "position_invariant rm \<Longrightarrow> position_invariant (update_position c symbol rm)"
  by (simp add: position_invariant_def update_position_def sum_dict_add)

text \<open>
  Claim C9, as the code has it. \<open>reset_risk\<close> zeroes \<open>current_position_size\<close>,
  clears \<open>trade_history\<close>, \<open>daily_loss_tracker\<close> and \<open>trade_metrics\<close>, and leaves
  \<open>position_tracker\<close> as it is. Every \<open>update_position\<close> preserves the invariant
  that the aggregate is the sum of the per-symbol entries. After \<open>reset_risk\<close> the
  invariant holds exactly when the per-symbol entries sum to 0: the reset breaks it
  whenever that sum is not 0.
\<close>

theorem reset_risk_frame:
  "rm_current_position_size (reset_risk rm) = 0
   \<and> trade_history (reset_risk rm) = []
   \<and> daily_loss_tracker (reset_risk rm) = []
   \<and> trade_metrics (reset_risk rm) = []
   \<and> position_tracker (reset_risk rm) = position_tracker rm
   \<and> (position_invariant rm \<longrightarrow> position_invariant (update_position c symbol rm))
   \<and> position_invariant (reset_risk rm) = (sum_list (map snd (position_tracker rm)) = 0)"
  using update_position_invariant [of rm c symbol]
  by (auto simp add: reset_risk_def position_invariant_def)

text \<open>
  A manager holding 500 AAPL satisfies the invariant, and still does after selling 200
  GOOG; resetting the manager that holds 500 AAPL keeps the entry and breaks the
  invariant.
\<close>

theorem reset_risk_frame_witness:
  "position_invariant (update_position 500 ''AAPL'' (RiskManager_init 7 1000 5000 []))
   \<and> position_invariant (update_position (- 200) ''GOOG''
        (update_position 500 ''AAPL'' (RiskManager_init 7 1000 5000 [])))
   \<and> position_tracker (reset_risk (update_position 500 ''AAPL'' (RiskManager_init 7 1000 5000 [])))
       = [(''AAPL'', 500)]
   \<and> \<not> position_invariant
         (reset_risk (update_position 500 ''AAPL'' (RiskManager_init 7 1000 5000 [])))"
  using reset_risk_frame
    [of "update_position 500 ''AAPL'' (RiskManager_init 7 1000 5000 [])" "- 200" "''GOOG''"]
  by (simp add: update_position_def RiskManager_init_def position_invariant_def dict_add_def)

text \<open>
  Claim C9 as stated fails for positions that cancel: with 5 AAPL and -5 GOOG a per-symbol
  position is not 0 at the time of the reset, and the invariant still holds after it.
\<close>

theorem offsetting_positions_counterexample:
  "symbol_exposure ''AAPL''
     (update_position (- 5) ''GOOG'' (update_position 5 ''AAPL'' (RiskManager_init 7 1000 5000 [])))
     \<noteq> 0
   \<and> position_invariant
       (update_position (- 5) ''GOOG'' (update_position 5 ''AAPL'' (RiskManager_init 7 1000 5000 [])))
   \<and> position_invariant
       (reset_risk
          (update_position (- 5) ''GOOG''
             (update_position 5 ''AAPL'' (RiskManager_init 7 1000 5000 []))))"
  by (simp add: update_position_def RiskManager_init_def position_invariant_def dict_add_def
      reset_risk_def symbol_exposure_def dict_get0_def)


section \<open>Evaluation order and enforcement\<close>

lemma check_custom_limits_all:
  "check_custom_limits ls rm =
     (filter (\<lambda>l. \<not> check_custom_limit l rm) ls = [],
      take 1 (map (\<lambda>l. CustomLimitExceeded (limit_name l))
                (filter (\<lambda>l. \<not> check_custom_limit l rm) ls)))"
  by (induction ls) simp_all

lemma check_risk_limits_first_violation:
  "check_risk_limits rm = (all_violations rm = [], take 1 (all_violations rm))"
  by (simp add: check_risk_limits_def all_violations_def check_custom_limits_all)

text \<open>
  Claim C2, as the code has it. \<open>check_risk_limits\<close> examines the aggregate position
  size, then the cumulative loss, then each custom limit in order, and stops at the
  first violated rule: it passes exactly when no rule is violated, and the violation it
  reports is the first of the violated rules alone. \<open>evaluate_risk\<close> passes exactly
  when the daily-loss check and the order-rate check both pass, and when the daily-loss
  check fails it returns at once, without running the order-rate check.
\<close>

theorem risk_check_stops_at_first_violation:
  "check_risk_limits rm = (all_violations rm = [], take 1 (all_violations rm))
   \<and> (\<bar>current_loss_per_day s\<bar> > max_loss_per_day s \<longrightarrow>
        evaluate_risk now s = (False, s\<lparr> daily_limit_breached := True \<rparr>))
   \<and> fst (evaluate_risk now s)
       = (fst (check_daily_loss_limit s) \<and> fst (check_order_rate now s))"
  by (auto simp add: check_risk_limits_first_violation evaluate_risk_def
      check_daily_loss_limit_def Let_def split: prod.splits)

text \<open>
  A manager over both the position limit and the loss limit reports the position
  violation only. A tracker over its daily loss limit, with an order-rate limit of 0 that
  any order would violate, fails the evaluation with its order counter untouched.
\<close>

theorem risk_check_stops_at_first_violation_witness:
  "check_risk_limits
     (record_trade 7 \<lparr>trade_symbol = ''AAPL'', trade_profit = 0, trade_loss = 6000\<rparr>
        (update_position 2000 ''AAPL'' (RiskManager_init 7 1000 5000 [])))
     = (False, [PositionSizeExceeded])
   \<and> all_violations
       (record_trade 7 \<lparr>trade_symbol = ''AAPL'', trade_profit = 0, trade_loss = 6000\<rparr>
          (update_position 2000 ''AAPL'' (RiskManager_init 7 1000 5000 [])))
     = [PositionSizeExceeded, DailyLossExceeded]
   \<and> \<bar>current_loss_per_day (update_trade_loss 70000 (RiskLimits_init 100000 50000 10000 20000 0))\<bar>
       > max_loss_per_day (update_trade_loss 70000 (RiskLimits_init 100000 50000 10000 20000 0))
   \<and> \<not> fst (check_order_rate 0 (update_trade_loss 70000 (RiskLimits_init 100000 50000 10000 20000 0)))
   \<and> orders_this_minute (snd (evaluate_risk 0
         (update_trade_loss 70000 (RiskLimits_init 100000 50000 10000 20000 0)))) = 0
   \<and> last_order_time (snd (evaluate_risk 0
         (update_trade_loss 70000 (RiskLimits_init 100000 50000 10000 20000 0)))) = None"
  using risk_check_stops_at_first_violation
    [of "record_trade 7 \<lparr>trade_symbol = ''AAPL'', trade_profit = 0, trade_loss = 6000\<rparr>
           (update_position 2000 ''AAPL'' (RiskManager_init 7 1000 5000 []))"
        "update_trade_loss 70000 (RiskLimits_init 100000 50000 10000 20000 0)" 0]
  by (simp add: all_violations_def record_trade_def update_daily_loss_def track_trade_metrics_def
      update_position_def RiskManager_init_def Let_def update_trade_loss_def RiskLimits_init_def
      check_order_rate_def)

text \<open>
  Claim C2 as stated fails: with the position limit and the daily loss limit both
  violated, \<open>check_risk_limits\<close> does not report the daily loss violation.
\<close>

theorem short_circuit_counterexample:
  "\<bar>rm_current_position_size
      (record_trade 7 \<lparr>trade_symbol = ''AAPL'', trade_profit = 0, trade_loss = 6000\<rparr>
         (update_position 2000 ''AAPL'' (RiskManager_init 7 1000 5000 [])))\<bar>
     > rm_max_position_size
         (record_trade 7 \<lparr>trade_symbol = ''AAPL'', trade_profit = 0, trade_loss = 6000\<rparr>
            (update_position 2000 ''AAPL'' (RiskManager_init 7 1000 5000 [])))
   \<and> current_loss
       (record_trade 7 \<lparr>trade_symbol = ''AAPL'', trade_profit = 0, trade_loss = 6000\<rparr>
          (update_position 2000 ''AAPL'' (RiskManager_init 7 1000 5000 [])))
     > max_daily_loss
         (record_trade 7 \<lparr>trade_symbol = ''AAPL'', trade_profit = 0, trade_loss = 6000\<rparr>
            (update_position 2000 ''AAPL'' (RiskManager_init 7 1000 5000 [])))
   \<and> DailyLossExceeded \<notin> set (snd (check_risk_limits
       (record_trade 7 \<lparr>trade_symbol = ''AAPL'', trade_profit = 0, trade_loss = 6000\<rparr>
          (update_position 2000 ''AAPL'' (RiskManager_init 7 1000 5000 [])))))"
  by (simp add: check_risk_limits_def record_trade_def update_daily_loss_def
      track_trade_metrics_def update_position_def RiskManager_init_def Let_def)

lemma trigger_risk_alert_ok:
  "post message \<noteq> None \<Longrightarrow>
   trigger_risk_alert post message m = (None, m\<lparr> actions := actions m @ enforcement message \<rparr>)"
  by (auto simp add: trigger_risk_alert_def send_alert_def halt_trading_def
      liquidate_positions_def enforcement_def Let_def)

lemma check_asset_classes_ok:
  assumes "\<forall>message. post message \<noteq> None"
    and "\<forall>asset_class \<in> fst ` set items.
           map_of (lim_max_exposure_by_asset_class (mon_risk_limits m)) asset_class \<noteq> None"
  shows "check_asset_classes post items m =
     (None, m\<lparr> actions := actions m
        @ concat (map enforcement (asset_violations (mon_risk_limits m) items)) \<rparr>)"
  using assms(2)
proof (induction items arbitrary: m)
  case Nil
  then show ?case by (simp add: asset_violations_def)
next
  case (Cons item items)
  obtain asset_class exposure where item: "item = (asset_class, exposure)" by (cases item)
  from Cons.prems item obtain cap where
    cap: "map_of (lim_max_exposure_by_asset_class (mon_risk_limits m)) asset_class = Some cap"
    by auto
  show ?case
  proof (cases "exposure > cap")
    case True
    let ?msg = "''Max exposure in '' @ asset_class @ '' exceeded''"
    let ?m1 = "m\<lparr> actions := actions m @ enforcement ?msg \<rparr>"
    have t: "trigger_risk_alert post ?msg m = (None, ?m1)"
      using assms(1) by (simp add: trigger_risk_alert_ok)
    have "\<forall>asset_class \<in> fst ` set items.
           map_of (lim_max_exposure_by_asset_class (mon_risk_limits ?m1)) asset_class \<noteq> None"
      using Cons.prems by simp
    from Cons.IH [OF this] True cap item t show ?thesis
      by (simp add: asset_violations_def)
  next
    case False
    have "\<forall>asset_class \<in> fst ` set items.
           map_of (lim_max_exposure_by_asset_class (mon_risk_limits m)) asset_class \<noteq> None"
      using Cons.prems by simp
    from Cons.IH [OF this] False cap item show ?thesis
      by (simp add: asset_violations_def)
  qed
qed

lemma monitor_check_ok:
  assumes "\<forall>message. post message \<noteq> None"
    and "\<forall>asset_class \<in> fst ` set (exposure_by_asset_class m).
           map_of (lim_max_exposure_by_asset_class (mon_risk_limits m)) asset_class \<noteq> None"
  shows "monitor_check_risk_limits post m =
     (None, m\<lparr> actions := actions m @ concat (map enforcement (violated_rules m)) \<rparr>)"
proof -
  have caps: "\<And>acts. \<forall>asset_class \<in> fst ` set (exposure_by_asset_class m).
       map_of (lim_max_exposure_by_asset_class (mon_risk_limits (m\<lparr>actions := acts\<rparr>)))
         asset_class \<noteq> None"
    using assms(2) by simp
  have ac: "\<And>acts. check_asset_classes post (exposure_by_asset_class m) (m\<lparr>actions := acts\<rparr>)
      = (None, m\<lparr>actions := acts
           @ concat (map enforcement
               (asset_violations (mon_risk_limits m) (exposure_by_asset_class m)))\<rparr>)"
    using check_asset_classes_ok [OF assms(1) caps] by simp
  have ac0: "check_asset_classes post (exposure_by_asset_class m) m
      = (None, m\<lparr>actions := actions m
           @ concat (map enforcement
               (asset_violations (mon_risk_limits m) (exposure_by_asset_class m)))\<rparr>)"
    using check_asset_classes_ok [OF assms] by simp
  show ?thesis
    using assms(1) ac ac0
    by (simp add: monitor_check_risk_limits_def violated_rules_def trigger_risk_alert_ok)
qed

lemma count_enforcement:
  "count_list (concat (map enforcement msgs)) LiquidatePositions = length msgs
   \<and> count_list (concat (map enforcement msgs)) HaltTrading = length msgs
   \<and> filter (\<lambda>a. a \<noteq> HaltTrading \<and> a \<noteq> LiquidatePositions) (concat (map enforcement msgs))
       = map SendAlert msgs"
  by (induction msgs) (simp_all add: enforcement_def)

lemma violated_rules_actions: "violated_rules (m\<lparr>actions := acts\<rparr>) = violated_rules m"
  by (simp add: violated_rules_def)

text \<open>
  Claim C1, as the code has it. The monitor keeps no halted state. In an evaluation in
  which every exposed asset class has a cap and no alert dispatch raises,
  \<open>check_risk_limits\<close> calls \<open>halt_trading\<close>, \<open>liquidate_positions\<close> and
  \<open>send_alert\<close> once for each violated rule, in order; a second evaluation of the same
  state does it all again, so two consecutive evaluations make two liquidation calls for
  each violated rule. The alerts sent in one evaluation are the messages of the violated
  rules, one each.
\<close>

theorem enforcement_per_violated_rule:
  assumes "\<forall>message. post message \<noteq> None"
    and "\<forall>asset_class \<in> fst ` set (exposure_by_asset_class m).
           map_of (lim_max_exposure_by_asset_class (mon_risk_limits m)) asset_class \<noteq> None"
  shows "monitor_check_risk_limits post m =
           (None, m\<lparr> actions := actions m @ concat (map enforcement (violated_rules m)) \<rparr>)
     \<and> monitor_check_risk_limits post (snd (monitor_check_risk_limits post m)) =
           (None, m\<lparr> actions := actions m @ concat (map enforcement (violated_rules m))
                                            @ concat (map enforcement (violated_rules m)) \<rparr>)
     \<and> count_list (actions (snd (monitor_check_risk_limits post
                                  (snd (monitor_check_risk_limits post m))))) LiquidatePositions
         = count_list (actions m) LiquidatePositions + 2 * length (violated_rules m)
     \<and> filter (\<lambda>a. a \<noteq> HaltTrading \<and> a \<noteq> LiquidatePositions)
              (concat (map enforcement (violated_rules m)))
         = map SendAlert (violated_rules m)"
proof -
  let ?e = "concat (map enforcement (violated_rules m))"
  let ?m1 = "m\<lparr> actions := actions m @ ?e \<rparr>"
  have one: "monitor_check_risk_limits post m = (None, ?m1)"
    using monitor_check_ok [OF assms] .
  have "\<forall>asset_class \<in> fst ` set (exposure_by_asset_class ?m1).
           map_of (lim_max_exposure_by_asset_class (mon_risk_limits ?m1)) asset_class \<noteq> None"
    using assms(2) by simp
  from monitor_check_ok [OF assms(1) this]
  have two: "monitor_check_risk_limits post ?m1 = (None, m\<lparr> actions := actions m @ ?e @ ?e \<rparr>)"
    by (simp add: violated_rules_actions)
  show ?thesis
    using one two count_enforcement [of "violated_rules m"] by simp
qed

text \<open>
  A state over the position limit and over the Equities cap: one evaluation halts,
  liquidates and alerts twice, two evaluations liquidate four times.
\<close>

theorem enforcement_per_violated_rule_witness:
  "violated_rules
     ((RealTimeRiskMonitor_init
         \<lparr>lim_max_position_size = 100, lim_max_loss = - 1000000,
          lim_max_exposure_by_asset_class = [(''Equities'', 1000), (''Forex'', 1000)]\<rparr>)
        \<lparr>exposure_by_asset_class := [(''Equities'', 1500), (''Forex'', 200)],
         total_exposure := 150, total_pnl := - 1\<rparr>)
     = [''Max position size exceeded'', ''Max exposure in Equities exceeded'']
   \<and> actions (snd (monitor_check_risk_limits (\<lambda>message. Some 200)
       ((RealTimeRiskMonitor_init
           \<lparr>lim_max_position_size = 100, lim_max_loss = - 1000000,
            lim_max_exposure_by_asset_class = [(''Equities'', 1000), (''Forex'', 1000)]\<rparr>)
          \<lparr>exposure_by_asset_class := [(''Equities'', 1500), (''Forex'', 200)],
           total_exposure := 150, total_pnl := - 1\<rparr>)))
     = [HaltTrading, LiquidatePositions, SendAlert ''Max position size exceeded'',
        HaltTrading, LiquidatePositions, SendAlert ''Max exposure in Equities exceeded'']
   \<and> count_list (actions (snd (monitor_check_risk_limits (\<lambda>message. Some 200)
       (snd (monitor_check_risk_limits (\<lambda>message. Some 200)
         ((RealTimeRiskMonitor_init
             \<lparr>lim_max_position_size = 100, lim_max_loss = - 1000000,
              lim_max_exposure_by_asset_class = [(''Equities'', 1000), (''Forex'', 1000)]\<rparr>)
            \<lparr>exposure_by_asset_class := [(''Equities'', 1500), (''Forex'', 200)],
             total_exposure := 150, total_pnl := - 1\<rparr>)))))) LiquidatePositions = 4"
proof -
  let ?post = "\<lambda>message::string. Some (200::nat)"
  let ?m = "(RealTimeRiskMonitor_init
         \<lparr>lim_max_position_size = 100, lim_max_loss = - 1000000,
          lim_max_exposure_by_asset_class = [(''Equities'', 1000), (''Forex'', 1000)]\<rparr>)
        \<lparr>exposure_by_asset_class := [(''Equities'', 1500), (''Forex'', 200)],
         total_exposure := 150, total_pnl := - 1\<rparr>"
  have h1: "\<forall>message. ?post message \<noteq> None" by simp
  have h2: "\<forall>asset_class \<in> fst ` set (exposure_by_asset_class ?m).
           map_of (lim_max_exposure_by_asset_class (mon_risk_limits ?m)) asset_class \<noteq> None"
    by (simp add: RealTimeRiskMonitor_init_def)
  have v: "violated_rules ?m
     = [''Max position size exceeded'', ''Max exposure in Equities exceeded'']"
    by (simp add: violated_rules_def asset_violations_def RealTimeRiskMonitor_init_def)
  have a: "actions ?m = []"
    by (simp add: RealTimeRiskMonitor_init_def)
  note r = enforcement_per_violated_rule [OF h1 h2]
  have c1: "actions (snd (monitor_check_risk_limits ?post ?m))
      = actions ?m @ concat (map enforcement (violated_rules ?m))"
    using r by simp
  have c2: "count_list (actions (snd (monitor_check_risk_limits ?post
                                  (snd (monitor_check_risk_limits ?post ?m))))) LiquidatePositions
      = count_list (actions ?m) LiquidatePositions + 2 * length (violated_rules ?m)"
    using r by blast
  show ?thesis
    unfolding c1 c2 v a by (simp add: enforcement_def)
qed

text \<open>
  Claim C1 as stated fails. The monitoring loop runs two passes over the same positions,
  150 units against a position limit of 100, every alert delivered with status 200: the
  liquidation is called twice and the same alert is sent twice.
\<close>

theorem repeated_enforcement_counterexample:
  "count_list
     (actions (monitor_risk (\<lambda>message. Some 200)
        [([(''EQAAPL'', \<lparr>quantity = 150, entry_price = 10\<rparr>)], \<lambda>symbol. 10),
         ([(''EQAAPL'', \<lparr>quantity = 150, entry_price = 10\<rparr>)], \<lambda>symbol. 10)]
        (RealTimeRiskMonitor_init
           \<lparr>lim_max_position_size = 100, lim_max_loss = - 1000000,
            lim_max_exposure_by_asset_class = [(''Equities'', 1000000)]\<rparr>)))
     LiquidatePositions = 2
   \<and> count_list
     (actions (monitor_risk (\<lambda>message. Some 200)
        [([(''EQAAPL'', \<lparr>quantity = 150, entry_price = 10\<rparr>)], \<lambda>symbol. 10),
         ([(''EQAAPL'', \<lparr>quantity = 150, entry_price = 10\<rparr>)], \<lambda>symbol. 10)]
        (RealTimeRiskMonitor_init
           \<lparr>lim_max_position_size = 100, lim_max_loss = - 1000000,
            lim_max_exposure_by_asset_class = [(''Equities'', 1000000)]\<rparr>)))
     (SendAlert ''Max position size exceeded'') = 2"
  by (simp add: monitor_risk_def monitor_iteration_def update_exposure_by_asset_class_def
      get_asset_class_def calculate_position_pnl_def calculate_fees_def
      monitor_check_risk_limits_def trigger_risk_alert_def send_alert_def halt_trading_def
      liquidate_positions_def RealTimeRiskMonitor_init_def Let_def)

end
